theory Spec2Isabelle
  imports Main "HOL-Library.Sublist"
begin

section \<open>JavaScript strings\<close>

text \<open>
  A JavaScript string is a sequence of UTF-16 code units; it is modelled as the list of
  their numbers. \<open>js\<close> turns an ASCII literal into such a list; a letter beyond ASCII
  is written as its code unit (the source files hold the precomposed letters:
  U+00ED, U+00E1, U+00F3).
\<close>

type_synonym jsstring = "nat list"

definition js :: "string \<Rightarrow> jsstring" where
  "js s = map of_char s"

text \<open>\<open>String.prototype.includes\<close>: the argument occurs as a contiguous run.\<close>

fun str_includes :: "jsstring \<Rightarrow> jsstring \<Rightarrow> bool" where
  "str_includes [] k = (k = [])"
| "str_includes (c # cs) k = (prefix k (c # cs) \<or> str_includes cs k)"

text \<open>
  \<open>String.prototype.trim\<close> removes the code units of ECMAScript's WhiteSpace and
  LineTerminator productions from both ends.
\<close>

definition esEspacio :: "nat \<Rightarrow> bool" where
  "esEspacio c =
     (c \<in> set [9, 10, 11, 12, 13, 32, 160, 5760, 8232, 8233, 8239, 8287, 12288, 65279]
      \<or> (8192 \<le> c \<and> c \<le> 8202))"

definition trim :: "jsstring \<Rightarrow> jsstring" where
  "trim s = rev (dropWhile esEspacio (rev (dropWhile esEspacio s)))"

section \<open>Pending files (ArchivosPendientes)\<close>

text \<open>
  The fields of a pending-file record that the code reads. \<open>num_registros\<close> and
  \<open>errores\<close> may be absent (\<open>None\<close> is \<open>undefined\<close>/\<open>null\<close>); \<open>estado\<close> is carried by the
  \<open>CAMBIO_ESTADO\<close> messages.
\<close>

record archivo =
  archivo_id :: nat
  nombre_archivo :: jsstring
  num_registros :: "int option"
  errores :: "jsstring list option"
  estado :: "jsstring option"

text \<open>The seven substrings \<open>esErrorCritico\<close> looks for, in the source's order.\<close>

definition palabrasCriticas :: "jsstring list" where
  "palabrasCriticas =
     [js ''vac'' @ [237] @ js ''o'', js ''vacio'', js ''corrupto'', js ''sin datos'',
      js ''nombre'', js ''inv'' @ [225] @ js ''lido'', js ''invalido'']"

text \<open>
  \<open>esErrorCritico\<close> of ArchivosPendientes. \<open>!archivo.num_registros\<close> holds for an absent
  count and for 0. \<open>String.prototype.toLowerCase\<close> is a builtin of the language: the
  model takes it as the parameter \<open>toLowerCase\<close>, so every theorem holds for the real one.
\<close>

definition errorCoincide :: "(jsstring \<Rightarrow> jsstring) \<Rightarrow> jsstring \<Rightarrow> bool" where
  "errorCoincide toLowerCase e =
     (let error = toLowerCase e in
        str_includes error (js ''vac'' @ [237] @ js ''o'') \<or>
        str_includes error (js ''vacio'') \<or>
        str_includes error (js ''corrupto'') \<or>
        str_includes error (js ''sin datos'') \<or>
        str_includes error (js ''nombre'') \<or>
        str_includes error (js ''inv'' @ [225] @ js ''lido'') \<or>
        str_includes error (js ''invalido''))"

definition esErrorCritico :: "(jsstring \<Rightarrow> jsstring) \<Rightarrow> archivo \<Rightarrow> bool" where
  "esErrorCritico toLowerCase a =
     (if num_registros a = None \<or> num_registros a = Some 0 then True
      else if (case errores a of
                 None \<Rightarrow> False
               | Some es \<Rightarrow> list_ex (errorCoincide toLowerCase) es) then True
      else False)"

text \<open>
  One row of the list: the flag \<open>critico\<close>, the \<open>disabled\<close> attribute of the approve
  button (\<open>disabled={critico}\<close>) and of the reject button (it has none).
\<close>

record fila =
  fila_id :: nat
  critico :: bool
  aprobarDisabled :: bool
  rechazarDisabled :: bool

definition renderFila :: "(jsstring \<Rightarrow> jsstring) \<Rightarrow> archivo \<Rightarrow> fila" where
  "renderFila toLowerCase a =
     (let c = esErrorCritico toLowerCase a in
        \<lparr>fila_id = archivo_id a, critico = c, aprobarDisabled = c, rechazarDisabled = False\<rparr>)"

datatype vista = Cargando | TodoAlDia | Filas "fila list"

definition ArchivosPendientes :: "(jsstring \<Rightarrow> jsstring) \<Rightarrow> archivo list \<Rightarrow> bool \<Rightarrow> vista" where
  "ArchivosPendientes toLowerCase archivos loading =
     (if loading then Cargando
      else if length archivos = 0 then TodoAlDia
      else Filas (map (renderFila toLowerCase) archivos))"

text \<open>
  A lower-casing of Basic Latin and Latin-1 Supplement (A-Z and U+00C0..U+00DE but
  U+00D7), used to run the model on concrete inputs.
\<close>

definition lowerLatin1 :: "jsstring \<Rightarrow> jsstring" where
  "lowerLatin1 s =
     map (\<lambda>c. if (65 \<le> c \<and> c \<le> 90) \<or> (192 \<le> c \<and> c \<le> 222 \<and> c \<noteq> 215) then c + 32 else c) s"

section \<open>The Dashboard component\<close>

subsection \<open>State, messages and effects\<close>

text \<open>
  A message of the notification channel, as \<open>JSON.parse\<close> returns it:
  \<open>{ tipo, archivo }\<close>. The model covers the messages of the protocol's shape (an
  object with a \<open>tipo\<close> and an \<open>archivo\<close> that has an id).
\<close>

record mensaje =
  tipo :: jsstring
  archivo :: archivo

record stats =
  pendientes :: int
  procesados :: int
  rechazados :: int

text \<open>\<open>modalData\<close> is \<open>null\<close> or \<open>{ archivo, tipo }\<close>.\<close>

record modal_data =
  modal_archivo :: archivo
  modal_tipo :: jsstring

text \<open>
  What the component does to the outside, in the order it does it: the REST requests
  (\<open>authAPI.me\<close>, \<open>archivoAPI.obtenerPendientes\<close>, \<open>archivoAPI.aprobar\<close>), the
  \<open>alert\<close> and \<open>console\<close> calls, \<open>setTimeout(cargarArchivos, ms)\<close> and the
  \<open>onLogout\<close> callback.
\<close>

datatype peticion = AuthMe | ObtenerPendientes | Aprobar nat bool "jsstring option"

datatype efecto =
    Alert jsstring
  | ConsoleError
  | ConsoleLog
  | Peticion peticion
  | SetTimeoutCargarArchivos nat
  | OnLogout

text \<open>
  A rejected request: \<open>error.response?.status\<close>, \<open>error.response?.data?.detail\<close>
  and \<open>error.message\<close>. A promise is resolved with a value or rejected with an error;
  the outcome of each request is an input of the function that awaits it.
\<close>

record error_http =
  status :: "nat option"
  detail :: "jsstring option"
  message :: jsstring

datatype 'a promesa = Resuelta 'a | Rechazada error_http

text \<open>What \<open>archivoAPI.obtenerPendientes\<close> resolves to: an array (\<open>Array.isArray\<close>) or not.\<close>

datatype datos_pendientes = Lista "archivo list" | NoLista

text \<open>
  The React state of Dashboard (\<open>archivos\<close>, \<open>loading\<close>, \<open>modalData\<close>, \<open>stats\<close>,
  \<open>tokenExpirando\<close>), the state of the \<open>useWebSocket\<close> hook it calls (\<open>mensajes\<close>,
  \<open>conectado\<close>), the two keys of \<open>localStorage\<close>, whether the \<open>onLogout\<close> prop is
  given, and the trace of effects.
\<close>

record dashboard =
  archivos :: "archivo list"
  loading :: bool
  modalData :: "modal_data option"
  stats :: stats
  tokenExpirando :: bool
  mensajes :: "mensaje list"
  conectado :: bool
  token :: "jsstring option"
  usuario :: "jsstring option"
  onLogout :: bool
  efectos :: "efecto list"

definition efecto :: "efecto \<Rightarrow> dashboard \<Rightarrow> dashboard" where
  "efecto e d = d\<lparr>efectos := efectos d @ [e]\<rparr>"

text \<open>The state after mount, before any request has settled.\<close>

definition inicial :: "jsstring option \<Rightarrow> dashboard" where
  "inicial t =
     \<lparr>archivos = [], loading = True, modalData = None,
      stats = \<lparr>pendientes = 0, procesados = 0, rechazados = 0\<rparr>,
      tokenExpirando = False, mensajes = [], conectado = False,
      token = t, usuario = None, onLogout = True, efectos = []\<rparr>"

subsection \<open>The notification hook (useWebSocket)\<close>

datatype excepcion = SyntaxError

text \<open>
  \<open>ws.current.onmessage\<close>. The first argument is the outcome of
  \<open>JSON.parse(event.data)\<close>: \<open>None\<close> when it throws. The result is \<open>Inl\<close> when an
  exception leaves the handler. The hook guarded by \<open>try\<close>/\<open>catch\<close> is \<open>onmessage\<close>;
  the repository also holds an earlier file of the hook with no guard,
  \<open>onmessage_sin_try\<close>.
\<close>

definition onmessage :: "mensaje option \<Rightarrow> dashboard \<Rightarrow> excepcion + dashboard" where
  "onmessage parsed d =
     (case parsed of
        Some data \<Rightarrow> Inr ((efecto ConsoleLog d)\<lparr>mensajes := mensajes d @ [data]\<rparr>)
      | None \<Rightarrow> Inr (efecto ConsoleError d))"

definition onmessage_sin_try :: "mensaje option \<Rightarrow> dashboard \<Rightarrow> excepcion + dashboard" where
  "onmessage_sin_try parsed d =
     (case parsed of
        Some data \<Rightarrow> Inr (d\<lparr>mensajes := mensajes d @ [data]\<rparr>)
      | None \<Rightarrow> Inl SyntaxError)"

definition onopen :: "dashboard \<Rightarrow> dashboard" where
  "onopen d = (efecto ConsoleLog d)\<lparr>conectado := True\<rparr>"

definition onclose :: "nat \<Rightarrow> dashboard \<Rightarrow> dashboard" where
  "onclose code d =
     (let d1 = (efecto ConsoleLog d)\<lparr>conectado := False\<rparr> in
        if code = 1008 \<or> code = 403 then efecto ConsoleError d1 else d1)"

subsection \<open>The effect on the message log\<close>

text \<open>
  The effect with dependency \<open>[mensajes]\<close>: it looks at the last message only. The two
  state setters are applied in the source's order; each updater reads the previous value
  of its own state.
\<close>

definition efectoMensajes :: "dashboard \<Rightarrow> dashboard" where
  "efectoMensajes d =
     (if length (mensajes d) = 0 then d
      else
        let ultimo = last (mensajes d) in
        if tipo ultimo = js ''NUEVO_ARCHIVO'' then
          let d1 = d\<lparr>archivos :=
                      (case find (\<lambda>a. archivo_id a = archivo_id (archivo ultimo)) (archivos d) of
                         Some _ \<Rightarrow> archivos d
                       | None \<Rightarrow> archivos d @ [archivo ultimo])\<rparr>
          in d1\<lparr>stats := (stats d1)\<lparr>pendientes := pendientes (stats d1) + 1\<rparr>\<rparr>
        else if tipo ultimo = js ''CAMBIO_ESTADO'' then
          let d1 = d\<lparr>archivos :=
                      filter (\<lambda>a. archivo_id a \<noteq> archivo_id (archivo ultimo)) (archivos d)\<rparr>;
              esAprobado = (estado (archivo ultimo) = Some (js ''APROBADO''))
          in d1\<lparr>stats := (stats d1)
                 \<lparr>pendientes := max 0 (pendientes (stats d1) - 1),
                  procesados := (if esAprobado then procesados (stats d1) + 1
                                 else procesados (stats d1)),
                  rechazados := (if \<not> esAprobado then rechazados (stats d1) + 1
                                 else rechazados (stats d1))\<rparr>\<rparr>
        else d)"

text \<open>
  One frame of the channel: the handler runs; when it has changed \<open>mensajes\<close> the
  component renders again and the effect runs. A frame that does not parse changes no
  state, so the effect does not run.
\<close>

definition recibirFrame :: "mensaje option \<Rightarrow> dashboard \<Rightarrow> dashboard" where
  "recibirFrame parsed d =
     (case onmessage parsed d of
        Inl _ \<Rightarrow> d
      | Inr d1 \<Rightarrow> (case parsed of None \<Rightarrow> d1 | Some _ \<Rightarrow> efectoMensajes d1))"

text \<open>A run of frames in which the component renders after every frame.\<close>

fun recibirFrames :: "mensaje option list \<Rightarrow> dashboard \<Rightarrow> dashboard" where
  "recibirFrames [] d = d"
| "recibirFrames (p # ps) d = recibirFrames ps (recibirFrame p d)"

text \<open>
  Frames that arrive before the component renders again: the handler runs on each of
  them, and each parsed one is appended to \<open>mensajes\<close>; no effect runs in between.
  Then the component renders once: when \<open>mensajes\<close> has been set the effect runs, once,
  and it looks at the last message only, so the earlier messages of the batch are
  never applied to \<open>archivos\<close> and \<open>stats\<close>.
\<close>

fun manejarFrames :: "mensaje option list \<Rightarrow> dashboard \<Rightarrow> dashboard" where
  "manejarFrames [] d = d"
| "manejarFrames (p # ps) d =
     manejarFrames ps (case onmessage p d of Inl _ \<Rightarrow> d | Inr d1 \<Rightarrow> d1)"

definition recibirLote :: "mensaje option list \<Rightarrow> dashboard \<Rightarrow> dashboard" where
  "recibirLote ps d =
     (let d1 = manejarFrames ps d in
        if list_ex (\<lambda>p. p \<noteq> None) ps then efectoMensajes d1 else d1)"

subsection \<open>Snapshot load and commands\<close>

text \<open>\<open>cargarArchivos\<close>; the argument is the outcome of \<open>archivoAPI.obtenerPendientes()\<close>.\<close>

definition cargarArchivos :: "datos_pendientes promesa \<Rightarrow> dashboard \<Rightarrow> dashboard" where
  "cargarArchivos r d =
     (let d1 = efecto (Peticion ObtenerPendientes) (d\<lparr>loading := True\<rparr>);
          d2 = (case r of
                  Resuelta (Lista data) \<Rightarrow>
                    d1\<lparr>archivos := data,
                       stats := (stats d1)\<lparr>pendientes := int (length data)\<rparr>\<rparr>
                | Resuelta NoLista \<Rightarrow> d1\<lparr>archivos := []\<rparr>
                | Rechazada error \<Rightarrow> efecto ConsoleError d1)
      in d2\<lparr>loading := False\<rparr>)"

definition handleAprobar :: "archivo \<Rightarrow> dashboard \<Rightarrow> dashboard" where
  "handleAprobar a d = d\<lparr>modalData := Some \<lparr>modal_archivo = a, modal_tipo = js ''aprobar''\<rparr>\<rparr>"

definition handleRechazar :: "archivo \<Rightarrow> dashboard \<Rightarrow> dashboard" where
  "handleRechazar a d = d\<lparr>modalData := Some \<lparr>modal_archivo = a, modal_tipo = js ''rechazar''\<rparr>\<rparr>"

definition mensajeNoDisponible :: jsstring where
  "mensajeNoDisponible =
     js ''El archivo ya no se encuentra disponible (posible reinicio del servidor). Se actualizar''
     @ [225] @ js '' la lista.''"

definition mensajeAtencion :: "error_http \<Rightarrow> jsstring" where
  "mensajeAtencion error =
     js ''Atenci'' @ [243] @ js ''n: '' @
     (case detail error of
        Some t \<Rightarrow> (if t = [] then message error else t)
      | None \<Rightarrow> message error)"

text \<open>
  \<open>handleConfirmarAccion\<close>; the first argument is the outcome of
  \<open>archivoAPI.aprobar(archivo.id, aprobado, comentarios)\<close>.
\<close>

definition handleConfirmarAccion ::
  "unit promesa \<Rightarrow> archivo \<Rightarrow> bool \<Rightarrow> jsstring option \<Rightarrow> dashboard \<Rightarrow> dashboard" where
  "handleConfirmarAccion r a aprobado comentarios d =
     (let d1 = efecto (Peticion (Aprobar (archivo_id a) aprobado comentarios)) d in
        case r of
          Resuelta _ \<Rightarrow>
            d1\<lparr>archivos := filter (\<lambda>x. archivo_id x \<noteq> archivo_id a) (archivos d1),
               modalData := None\<rparr>
        | Rechazada error \<Rightarrow>
            (let d2 = (if status error = Some 401 then efecto (Alert mensajeNoDisponible) d1
                       else efecto (Alert (mensajeAtencion error)) d1)
             in efecto (SetTimeoutCargarArchivos 1000) (d2\<lparr>modalData := None, loading := True\<rparr>)))"

subsection \<open>The confirmation dialog (ModalAprobacion)\<close>

text \<open>
  The dialog's own state. \<open>handleSubmit\<close> is given the dialog's props (\<open>archivo\<close>,
  \<open>tipo\<close>; \<open>onConfirmar\<close> is \<open>handleConfirmarAccion\<close>) and the outcome of the request
  that \<open>onConfirmar\<close> awaits. \<open>enviando\<close> is set while the request is awaited and reset
  in \<open>finally\<close>; the model gives the state after \<open>finally\<close>.
\<close>

record modal =
  comentarios :: jsstring
  enviando :: bool

definition mensajeComentario :: jsstring where
  "mensajeComentario = js ''Por favor, ingresa un comentario explicando el motivo del rechazo''"

definition handleSubmit ::
  "unit promesa \<Rightarrow> archivo \<Rightarrow> jsstring \<Rightarrow> modal \<Rightarrow> dashboard \<Rightarrow> modal \<times> dashboard" where
  "handleSubmit r a tipo_modal m d =
     (let esAprobacion = (tipo_modal = js ''aprobar'') in
        if \<not> esAprobacion \<and> trim (comentarios m) = [] then
          (m, efecto (Alert mensajeComentario) d)
        else
          (m\<lparr>enviando := False\<rparr>,
           handleConfirmarAccion r a esAprobacion
             (if trim (comentarios m) = [] then None else Some (trim (comentarios m))) d))"

text \<open>Submitting the dialog that \<open>modalData\<close> holds open; nothing to submit when it is closed.\<close>

definition submitModal :: "unit promesa \<Rightarrow> modal \<Rightarrow> dashboard \<Rightarrow> modal \<times> dashboard" where
  "submitModal r m d =
     (case modalData d of
        None \<Rightarrow> (m, d)
      | Some md \<Rightarrow> handleSubmit r (modal_archivo md) (modal_tipo md) m d)"

subsection \<open>The session check\<close>

text \<open>
  The outcome of \<open>JSON.parse(atob(token.split('.')[1]))\<close> followed by \<open>payload.exp\<close>:
  an exception, a payload whose \<open>exp\<close> is no number (the arithmetic gives \<open>NaN\<close> and
  both comparisons are false), or the expiry in seconds. The decoder is made of builtins
  and is a parameter; \<open>ahora\<close> is \<open>Date.now()\<close> in milliseconds.
\<close>

datatype decodificado = Lanza | SinExp | Exp int

definition handleLogoutSesion :: "dashboard \<Rightarrow> dashboard" where
  "handleLogoutSesion d =
     (let d1 = d\<lparr>token := None, usuario := None\<rparr> in
        if onLogout d1 then efecto OnLogout d1 else d1)"

definition verificarExpiracionToken ::
  "(jsstring \<Rightarrow> decodificado) \<Rightarrow> int \<Rightarrow> jsstring \<Rightarrow> dashboard \<Rightarrow> dashboard" where
  "verificarExpiracionToken decodificar ahora t d =
     (case decodificar t of
        Lanza \<Rightarrow> efecto ConsoleError d
      | SinExp \<Rightarrow> d\<lparr>tokenExpirando := False\<rparr>
      | Exp e \<Rightarrow>
          (let tiempoRestante = e * 1000 - ahora;
               d1 = d\<lparr>tokenExpirando := (tiempoRestante > 0 \<and> tiempoRestante < 10 * 60 * 1000)\<rparr>
           in if tiempoRestante \<le> 0 then handleLogoutSesion d1 else d1))"

text \<open>\<open>verificarToken\<close>; \<open>r\<close> is the outcome of \<open>authAPI.me()\<close>. \<open>!token\<close> holds for
  an absent key and for the empty string.\<close>

definition verificarToken ::
  "(jsstring \<Rightarrow> decodificado) \<Rightarrow> int \<Rightarrow> unit promesa \<Rightarrow> dashboard \<Rightarrow> dashboard" where
  "verificarToken decodificar ahora r d =
     (case token d of
        None \<Rightarrow> handleLogoutSesion d
      | Some t \<Rightarrow>
          if t = [] then handleLogoutSesion d
          else
            (let d1 = verificarExpiracionToken decodificar ahora t d;
                 d2 = efecto (Peticion AuthMe) d1
             in case r of
                  Resuelta _ \<Rightarrow> d2
                | Rechazada error \<Rightarrow>
                    if status error = Some 401 then handleLogoutSesion d2 else d2))"

subsection \<open>The store's operations, as the specification names them\<close>

text \<open>
  \<open>applyEvent\<close> is the delivery of parsed messages: \<open>Eventos ms\<close> is the arrival of the
  messages \<open>ms\<close> followed by one render (one message when a render follows every
  frame); \<open>applyCommandResult\<close> is the continuation of \<open>handleConfirmarAccion\<close> after
  the request has settled; \<open>loadSnapshot\<close> is \<open>cargarArchivos\<close>.
\<close>

datatype accion =
    Eventos "mensaje list"
  | ResultadoComando "unit promesa" archivo bool "jsstring option"

fun aplicar :: "accion \<Rightarrow> dashboard \<Rightarrow> dashboard" where
  "aplicar (Eventos ms) d = recibirLote (map Some ms) d"
| "aplicar (ResultadoComando r a aprobado c) d = handleConfirmarAccion r a aprobado c d"

fun ejecutar :: "accion list \<Rightarrow> dashboard \<Rightarrow> dashboard" where
  "ejecutar [] d = d"
| "ejecutar (x # xs) d = ejecutar xs (aplicar x d)"

text \<open>Messages and files used to run the model.\<close>

definition archivo1 :: archivo where
  "archivo1 =
     \<lparr>archivo_id = 1, nombre_archivo = js ''a.txt'', num_registros = Some 5,
      errores = Some [], estado = None\<rparr>"

definition nuevoArchivo :: "archivo \<Rightarrow> mensaje" where
  "nuevoArchivo a = \<lparr>tipo = js ''NUEVO_ARCHIVO'', archivo = a\<rparr>"

definition cambioEstado :: "archivo \<Rightarrow> jsstring \<Rightarrow> mensaje" where
  "cambioEstado a e = \<lparr>tipo = js ''CAMBIO_ESTADO'', archivo = a\<lparr>estado := Some e\<rparr>\<rparr>"

text \<open>
  The actions after which the effect runs on a \<open>CAMBIO_ESTADO\<close> message: the last
  message of a batch that is not empty, by its \<open>estado\<close>.
\<close>

definition esCambioAprobado :: "accion \<Rightarrow> bool" where
  "esCambioAprobado x =
     (case x of
        Eventos ms \<Rightarrow>
          ms \<noteq> [] \<and> tipo (last ms) = js ''CAMBIO_ESTADO'' \<and>
          estado (archivo (last ms)) = Some (js ''APROBADO'')
      | ResultadoComando r a aprobado c \<Rightarrow> False)"

definition esCambioNoAprobado :: "accion \<Rightarrow> bool" where
  "esCambioNoAprobado x =
     (case x of
        Eventos ms \<Rightarrow>
          ms \<noteq> [] \<and> tipo (last ms) = js ''CAMBIO_ESTADO'' \<and>
          estado (archivo (last ms)) \<noteq> Some (js ''APROBADO'')
      | ResultadoComando r a aprobado c \<Rightarrow> False)"

text \<open>The REST requests issued so far, in order.\<close>

fun peticionDe :: "efecto \<Rightarrow> peticion option" where
  "peticionDe (Peticion p) = Some p"
| "peticionDe _ = None"

definition peticiones :: "dashboard \<Rightarrow> peticion list" where
  "peticiones d = List.map_filter peticionDe (efectos d)"

text \<open>States, files and dialogs used to run the model.\<close>

definition archivoVacio :: archivo where
  "archivoVacio = archivo1\<lparr>archivo_id := 2, num_registros := Some 0\<rparr>"

definition archivoCorrupto :: archivo where
  "archivoCorrupto = archivo1\<lparr>archivo_id := 3, errores := Some [js ''Archivo CORRUPTO'']\<rparr>"

text \<open>
  A credential whose middle segment is the base64 of \<open>{"exp":1000}\<close>, and the decoder's
  value on it.
\<close>

definition credencial :: jsstring where
  "credencial = js ''h.eyJleHAiOjEwMDB9.s''"

definition vencido :: "jsstring \<Rightarrow> decodificado" where
  "vencido t = (if t = credencial then Exp 1000 else Lanza)"

definition unPendiente :: dashboard where
  "unPendiente = cargarArchivos (Resuelta (Lista [archivo1])) (inicial (Some credencial))"

definition dialogoRechazo :: dashboard where
  "dialogoRechazo = handleRechazar archivo1 unPendiente"

definition enBlanco :: modal where
  "enBlanco = \<lparr>comentarios = [32, 9, 160, 10], enviando = False\<rparr>"

definition conMotivo :: modal where
  "conMotivo = \<lparr>comentarios = js '' mal '', enviando = False\<rparr>"

definition aprobado1 :: mensaje where
  "aprobado1 = cambioEstado archivo1 (js ''APROBADO'')"

section \<open>Properties\<close>

subsection \<open>Strings\<close>

lemma str_includes_sublist: "str_includes s k = sublist k s"
  by (induction s) (auto simp: sublist_Cons_right)

lemma errorCoincide_palabras:
  "errorCoincide toLowerCase e = list_ex (str_includes (toLowerCase e)) palabrasCriticas"
  by (simp add: errorCoincide_def palabrasCriticas_def Let_def)

lemma dropWhile_todos: "(\<forall>x\<in>set (dropWhile P s). P x) = (\<forall>x\<in>set s. P x)"
proof
  assume h: "\<forall>x\<in>set (dropWhile P s). P x"
  have "dropWhile P s = []"
  proof (rule ccontr)
    assume n: "dropWhile P s \<noteq> []"
    then have "\<not> P (hd (dropWhile P s))" by (rule hd_dropWhile)
    moreover have "hd (dropWhile P s) \<in> set (dropWhile P s)" using n by simp
    ultimately show False using h by blast
  qed
  then show "\<forall>x\<in>set s. P x" by (simp add: dropWhile_eq_Nil_conv)
next
  assume "\<forall>x\<in>set s. P x"
  then show "\<forall>x\<in>set (dropWhile P s). P x" by (meson set_dropWhileD)
qed

text \<open>\<open>trim\<close> leaves nothing exactly when every code unit is white space.\<close>

lemma trim_vacio: "(trim s = []) = list_all esEspacio s"
  by (simp add: trim_def dropWhile_eq_Nil_conv dropWhile_todos list_all_iff)

lemma js_tipos_distintos: "js ''CAMBIO_ESTADO'' \<noteq> js ''NUEVO_ARCHIVO''"
  by (simp add: js_def)

subsection \<open>Frames of the channel\<close>

lemma recibirFrame_Some:
  "recibirFrame (Some m) d = efectoMensajes ((efecto ConsoleLog d)\<lparr>mensajes := mensajes d @ [m]\<rparr>)"
  by (simp add: recibirFrame_def onmessage_def)

lemma recibirFrame_None: "recibirFrame None d = efecto ConsoleError d"
  by (simp add: recibirFrame_def onmessage_def)

lemma recibirFrame_mensajes:
  "mensajes (recibirFrame p d) = mensajes d @ (case p of None \<Rightarrow> [] | Some m \<Rightarrow> [m])"
  by (cases p) (simp_all add: recibirFrame_def onmessage_def efecto_def efectoMensajes_def Let_def)

lemma recibirFrame_conectado: "conectado (recibirFrame p d) = conectado d"
  by (cases p) (simp_all add: recibirFrame_def onmessage_def efecto_def efectoMensajes_def Let_def)

lemma recibirFrames_mensajes:
  "mensajes (recibirFrames ps d) = mensajes d @ List.map_filter (\<lambda>p. p) ps"
  by (induction ps arbitrary: d)
     (auto simp: recibirFrame_mensajes List.map_filter_simps split: option.splits)

lemma recibirFrames_conectado: "conectado (recibirFrames ps d) = conectado d"
  by (induction ps arbitrary: d) (simp_all add: recibirFrame_conectado)

text \<open>
  The handler alone touches \<open>mensajes\<close> and the console; a batch of one frame is that
  frame handled alone; however the frames are batched, the log holds the parsed
  messages in arrival order.
\<close>

lemma manejarFrames_estado:
  "mensajes (manejarFrames ps d) = mensajes d @ List.map_filter (\<lambda>p. p) ps \<and>
   conectado (manejarFrames ps d) = conectado d \<and>
   archivos (manejarFrames ps d) = archivos d \<and>
   stats (manejarFrames ps d) = stats d"
proof (induction ps arbitrary: d)
  case Nil
  show ?case by (simp add: List.map_filter_simps)
next
  case (Cons p ps)
  show ?case
    by (cases p) (simp_all add: Cons.IH onmessage_def efecto_def List.map_filter_simps)
qed

lemma map_filter_Some: "List.map_filter (\<lambda>p. p) (map Some ms) = ms"
  by (induction ms) (simp_all add: List.map_filter_simps)

lemma recibirLote_uno: "recibirLote [p] d = recibirFrame p d"
  by (cases p) (simp_all add: recibirLote_def recibirFrame_def onmessage_def)

lemma recibirLote_mensajes:
  "mensajes (recibirLote ps d) = mensajes d @ List.map_filter (\<lambda>p. p) ps \<and>
   conectado (recibirLote ps d) = conectado d"
  by (simp add: recibirLote_def Let_def manejarFrames_estado efectoMensajes_def)

text \<open>
  The earlier file of the hook, with no \<open>try\<close>: a frame that does not parse makes the
  handler throw, and the state is the one before the frame.
\<close>

lemma onmessage_sin_try_None: "onmessage_sin_try None d = Inl SyntaxError"
  by (simp add: onmessage_sin_try_def)

lemma onmessage_sin_try_Some:
  "onmessage_sin_try (Some m) d = Inr d1 \<Longrightarrow> mensajes d1 = mensajes d @ [m]"
  by (auto simp: onmessage_sin_try_def)

text \<open>
  C9. A frame whose payload does not parse is dropped and logged: the handler returns
  normally, \<open>mensajes\<close> and \<open>conectado\<close> are as before and the only trace is a
  \<open>console.error\<close>; the store is not touched either. A frame that parses is appended
  to \<open>mensajes\<close>; over any run of frames the log grows by the parsed messages in arrival
  order.
\<close>

theorem mensajes_malformados:
  "onmessage None d = Inr (efecto ConsoleError d) \<and>
   mensajes (efecto ConsoleError d) = mensajes d \<and>
   conectado (efecto ConsoleError d) = conectado d \<and>
   recibirFrame None d = efecto ConsoleError d \<and>
   (\<exists>d1. onmessage (Some m) d = Inr d1 \<and> mensajes d1 = mensajes d @ [m]) \<and>
   mensajes (recibirFrames ps d) = mensajes d @ List.map_filter (\<lambda>p. p) ps \<and>
   conectado (recibirFrames ps d) = conectado d"
  by (simp add: recibirFrames_mensajes recibirFrames_conectado recibirFrame_None)
     (simp add: onmessage_def efecto_def)

text \<open>Closing the channel, for a policy code or any other, leaves it disconnected.\<close>

lemma onclose_conectado: "conectado (onclose code d) = False"
  by (simp add: onclose_def efecto_def Let_def)

subsection \<open>Critical files\<close>

text \<open>Once loaded, a list that is not empty is shown as one row per file.\<close>

lemma ArchivosPendientes_filas:
  "xs \<noteq> [] \<Longrightarrow> ArchivosPendientes toLowerCase xs False = Filas (map (renderFila toLowerCase) xs)"
  by (simp add: ArchivosPendientes_def)

text \<open>
  C5. A file whose record count is absent or zero, or one of whose error strings
  contains (lower-cased) one of the seven critical substrings, is classified critical:
  its approve button is disabled, whatever its other fields, and its reject button is
  not.
\<close>

theorem esErrorCritico_bloquea:
  assumes "num_registros a = None \<or> num_registros a = Some 0 \<or>
           (\<exists>es e k. errores a = Some es \<and> e \<in> set es \<and> k \<in> set palabrasCriticas \<and>
                      str_includes (toLowerCase e) k)"
  shows "esErrorCritico toLowerCase a \<and> critico (renderFila toLowerCase a) \<and>
         aprobarDisabled (renderFila toLowerCase a) \<and> \<not> rechazarDisabled (renderFila toLowerCase a)"
proof -
  have c: "esErrorCritico toLowerCase a"
    using assms
    by (auto simp: esErrorCritico_def errorCoincide_palabras list_ex_iff)
  then show ?thesis by (simp add: renderFila_def Let_def)
qed

theorem esErrorCritico_bloquea_witness:
  "num_registros archivoVacio = Some 0 \<and>
   aprobarDisabled (renderFila lowerLatin1 archivoVacio) \<and>
   \<not> rechazarDisabled (renderFila lowerLatin1 archivoVacio) \<and>
   num_registros archivoCorrupto = Some 5 \<and>
   str_includes (lowerLatin1 (js ''Archivo CORRUPTO'')) (js ''corrupto'') \<and>
   aprobarDisabled (renderFila lowerLatin1 archivoCorrupto) \<and>
   \<not> rechazarDisabled (renderFila lowerLatin1 archivoCorrupto) \<and>
   \<not> aprobarDisabled (renderFila lowerLatin1 archivo1)"
proof -
  have v: "num_registros archivoVacio = Some 0"
    by (simp add: archivoVacio_def archivo1_def)
  have i: "str_includes (lowerLatin1 (js ''Archivo CORRUPTO'')) (js ''corrupto'')"
    by (simp add: lowerLatin1_def js_def)
  have k: "js ''corrupto'' \<in> set palabrasCriticas"
    by (simp add: palabrasCriticas_def)
  have e: "errores archivoCorrupto = Some [js ''Archivo CORRUPTO'']"
    by (simp add: archivoCorrupto_def)
  have n: "num_registros archivoCorrupto = Some 5"
    by (simp add: archivoCorrupto_def archivo1_def)
  have s: "\<not> aprobarDisabled (renderFila lowerLatin1 archivo1)"
    by (simp add: renderFila_def esErrorCritico_def archivo1_def)
  show ?thesis
    using esErrorCritico_bloquea [of archivoVacio lowerLatin1]
      esErrorCritico_bloquea [of archivoCorrupto lowerLatin1] v i k e n s
    by auto
qed

subsection \<open>Snapshot load\<close>

text \<open>The state after \<open>cargarArchivos\<close>, for each outcome of the request.\<close>

lemma cargarArchivos_Lista_estado:
  "cargarArchivos (Resuelta (Lista data)) d =
     d\<lparr>archivos := data, loading := False,
       stats := (stats d)\<lparr>pendientes := int (length data)\<rparr>,
       efectos := efectos d @ [Peticion ObtenerPendientes]\<rparr>"
  by (simp add: cargarArchivos_def efecto_def Let_def)

lemma cargarArchivos_NoLista_estado:
  "cargarArchivos (Resuelta NoLista) d =
     d\<lparr>archivos := [], loading := False,
       efectos := efectos d @ [Peticion ObtenerPendientes]\<rparr>"
  by (simp add: cargarArchivos_def efecto_def Let_def)

lemma cargarArchivos_Rechazada_estado:
  "cargarArchivos (Rechazada error) d =
     d\<lparr>loading := False,
       efectos := efectos d @ [Peticion ObtenerPendientes, ConsoleError]\<rparr>"
  by (simp add: cargarArchivos_def efecto_def Let_def)

text \<open>
  C4. When the request resolves with a list of N records, the list replaces \<open>archivos\<close>,
  \<open>pendientes\<close> is N, and \<open>procesados\<close> and \<open>rechazados\<close> keep their values.
\<close>

theorem cargarArchivos_lista:
  "archivos (cargarArchivos (Resuelta (Lista data)) d) = data \<and>
   pendientes (stats (cargarArchivos (Resuelta (Lista data)) d)) = int (length data) \<and>
   procesados (stats (cargarArchivos (Resuelta (Lista data)) d)) = procesados (stats d) \<and>
   rechazados (stats (cargarArchivos (Resuelta (Lista data)) d)) = rechazados (stats d)"
  unfolding cargarArchivos_Lista_estado by simp

text \<open>
  C10. When the request resolves with a value that is no list, \<open>archivos\<close> becomes empty
  and the counters keep their values; so a \<open>pendientes\<close> that was not 0 differs from the
  number of files shown afterwards.
\<close>

theorem cargarArchivos_no_lista:
  "archivos (cargarArchivos (Resuelta NoLista) d) = [] \<and>
   stats (cargarArchivos (Resuelta NoLista) d) = stats d \<and>
   (pendientes (stats d) \<noteq> 0 \<longrightarrow>
      pendientes (stats (cargarArchivos (Resuelta NoLista) d))
        \<noteq> int (length (archivos (cargarArchivos (Resuelta NoLista) d))))"
  unfolding cargarArchivos_NoLista_estado by simp

theorem cargarArchivos_no_lista_witness:
  "pendientes (stats unPendiente) = 1 \<and>
   archivos (cargarArchivos (Resuelta NoLista) unPendiente) = [] \<and>
   pendientes (stats (cargarArchivos (Resuelta NoLista) unPendiente)) = 1"
proof -
  have p: "pendientes (stats unPendiente) = 1"
    by (simp add: unPendiente_def cargarArchivos_def efecto_def inicial_def Let_def)
  show ?thesis
    using cargarArchivos_no_lista [of unPendiente] p by simp
qed

subsection \<open>Commands\<close>

lemma handleConfirmarAccion_Rechazada_estado:
  "handleConfirmarAccion (Rechazada error) a aprobado c d =
     d\<lparr>modalData := None, loading := True,
       efectos := efectos d @
         [Peticion (Aprobar (archivo_id a) aprobado c),
          Alert (if status error = Some 401 then mensajeNoDisponible else mensajeAtencion error),
          SetTimeoutCargarArchivos 1000]\<rparr>"
  by (simp add: handleConfirmarAccion_def efecto_def Let_def)

text \<open>
  C8. When the approve/reject request is rejected (with status 401, the stale-reference
  case, or with any other error), \<open>archivos\<close> and the counters are as before, the dialog
  is closed, and the last thing done is \<open>setTimeout(cargarArchivos, 1000)\<close>; with status
  401 the notice is the one about the file no longer being available.
\<close>

theorem comando_fallido:
  "archivos (handleConfirmarAccion (Rechazada error) a aprobado c d) = archivos d \<and>
   stats (handleConfirmarAccion (Rechazada error) a aprobado c d) = stats d \<and>
   modalData (handleConfirmarAccion (Rechazada error) a aprobado c d) = None \<and>
   efectos (handleConfirmarAccion (Rechazada error) a aprobado c d) =
     efectos d @
     [Peticion (Aprobar (archivo_id a) aprobado c),
      Alert (if status error = Some 401 then mensajeNoDisponible else mensajeAtencion error),
      SetTimeoutCargarArchivos 1000]"
  unfolding handleConfirmarAccion_Rechazada_estado by simp

subsection \<open>The confirmation dialog\<close>

lemma peticiones_efecto:
  "peticiones (efecto e d) = peticiones d @ (case peticionDe e of None \<Rightarrow> [] | Some p \<Rightarrow> [p])"
  by (simp add: peticiones_def efecto_def List.map_filter_def split: option.splits)

text \<open>
  C6. With a dialog open: when the action is a rejection and the comment is empty or
  all white space, submitting issues no request, leaves the dialog open and its state
  as it was, and shows the validation message; in every other case (an approval, or a
  rejection whose trimmed comment is not empty) the approve/reject request is issued,
  carrying the trimmed comment or \<open>null\<close>.
\<close>

theorem rechazo_requiere_comentario:
  assumes "modalData d = Some md"
  shows "if modal_tipo md \<noteq> js ''aprobar'' \<and> list_all esEspacio (comentarios m)
         then submitModal r m d = (m, efecto (Alert mensajeComentario) d) \<and>
              peticiones (snd (submitModal r m d)) = peticiones d \<and>
              modalData (snd (submitModal r m d)) = Some md
         else \<exists>resto. efectos (snd (submitModal r m d)) =
                efectos d @
                Peticion (Aprobar (archivo_id (modal_archivo md)) (modal_tipo md = js ''aprobar'')
                           (if trim (comentarios m) = [] then None else Some (trim (comentarios m))))
                # resto"
proof (cases "modal_tipo md \<noteq> js ''aprobar'' \<and> list_all esEspacio (comentarios m)")
  case True
  then have "submitModal r m d = (m, efecto (Alert mensajeComentario) d)"
    using assms by (simp add: submitModal_def handleSubmit_def trim_vacio Let_def)
  moreover have "peticiones (efecto (Alert mensajeComentario) d) = peticiones d"
    by (simp add: peticiones_efecto)
  moreover have "modalData (efecto (Alert mensajeComentario) d) = Some md"
    using assms by (simp add: efecto_def)
  ultimately show ?thesis using True by simp
next
  case False
  then have "snd (submitModal r m d) =
      handleConfirmarAccion r (modal_archivo md) (modal_tipo md = js ''aprobar'')
        (if trim (comentarios m) = [] then None else Some (trim (comentarios m))) d"
    using assms by (auto simp: submitModal_def handleSubmit_def trim_vacio Let_def)
  then show ?thesis using False
    by (cases r) (auto simp: handleConfirmarAccion_def efecto_def Let_def)
qed

theorem rechazo_requiere_comentario_witness:
  "modalData dialogoRechazo = Some \<lparr>modal_archivo = archivo1, modal_tipo = js ''rechazar''\<rparr> \<and>
   submitModal (Resuelta ()) enBlanco dialogoRechazo
     = (enBlanco, efecto (Alert mensajeComentario) dialogoRechazo) \<and>
   peticiones (snd (submitModal (Resuelta ()) enBlanco dialogoRechazo)) = [ObtenerPendientes] \<and>
   (\<exists>resto. efectos (snd (submitModal (Resuelta ()) conMotivo dialogoRechazo)) =
      efectos dialogoRechazo @ Peticion (Aprobar 1 False (Some (js ''mal''))) # resto)"
proof -
  have md: "modalData dialogoRechazo = Some \<lparr>modal_archivo = archivo1, modal_tipo = js ''rechazar''\<rparr>"
    by (simp add: dialogoRechazo_def handleRechazar_def)
  have t: "js ''rechazar'' \<noteq> js ''aprobar''"
    by (simp add: js_def)
  have b: "list_all esEspacio (comentarios enBlanco)"
    by (simp add: enBlanco_def esEspacio_def)
  have nb: "\<not> list_all esEspacio (comentarios conMotivo)"
    by (simp add: conMotivo_def esEspacio_def js_def)
  have tr: "trim (comentarios conMotivo) = js ''mal''"
    by (simp add: conMotivo_def trim_def esEspacio_def js_def)
  have p: "peticiones dialogoRechazo = [ObtenerPendientes]"
    by (simp add: dialogoRechazo_def handleRechazar_def unPendiente_def cargarArchivos_def
        inicial_def efecto_def peticiones_def List.map_filter_simps Let_def)
  have i: "archivo_id archivo1 = 1"
    by (simp add: archivo1_def)
  show ?thesis
    using rechazo_requiere_comentario [OF md, of enBlanco "Resuelta ()"]
      rechazo_requiere_comentario [OF md, of conMotivo "Resuelta ()"]
      md t b nb tr p i
    by (simp add: js_def peticiones_efecto)
qed

subsection \<open>Events and the counters\<close>

lemma unPendiente_valor:
  "unPendiente =
     \<lparr>archivos = [archivo1], loading = False, modalData = None,
      stats = \<lparr>pendientes = 1, procesados = 0, rechazados = 0\<rparr>,
      tokenExpirando = False, mensajes = [], conectado = False,
      token = Some credencial, usuario = None, onLogout = True,
      efectos = [Peticion ObtenerPendientes]\<rparr>"
  by (simp add: unPendiente_def cargarArchivos_def inicial_def efecto_def Let_def)

text \<open>One run of the effect moves a terminal counter by the last message alone.\<close>

lemma efectoMensajes_procesados:
  "procesados (stats (efectoMensajes d)) =
     procesados (stats d) +
     (if mensajes d \<noteq> [] \<and> tipo (last (mensajes d)) = js ''CAMBIO_ESTADO'' \<and>
         estado (archivo (last (mensajes d))) = Some (js ''APROBADO'') then 1 else 0)"
  by (simp add: efectoMensajes_def Let_def js_tipos_distintos js_tipos_distintos [symmetric])

lemma efectoMensajes_rechazados:
  "rechazados (stats (efectoMensajes d)) =
     rechazados (stats d) +
     (if mensajes d \<noteq> [] \<and> tipo (last (mensajes d)) = js ''CAMBIO_ESTADO'' \<and>
         estado (archivo (last (mensajes d))) \<noteq> Some (js ''APROBADO'') then 1 else 0)"
  by (simp add: efectoMensajes_def Let_def js_tipos_distintos js_tipos_distintos [symmetric])

lemma recibirLote_Some_efecto:
  assumes "ms \<noteq> []"
  shows "recibirLote (map Some ms) d = efectoMensajes (manejarFrames (map Some ms) d) \<and>
         last (mensajes (manejarFrames (map Some ms) d)) = last ms \<and>
         mensajes (manejarFrames (map Some ms) d) \<noteq> []"
proof -
  have m: "mensajes (manejarFrames (map Some ms) d) = mensajes d @ ms"
    by (simp add: manejarFrames_estado map_filter_Some)
  have e: "list_ex (\<lambda>p. p \<noteq> None) (map Some ms)"
    using assms by (cases ms) simp_all
  have r: "recibirLote (map Some ms) d = efectoMensajes (manejarFrames (map Some ms) d)"
    using e by (simp add: recibirLote_def Let_def)
  show ?thesis using m r assms by simp
qed

lemma recibirLote_vacio: "recibirLote [] d = d"
  by (simp add: recibirLote_def)

lemma recibirLote_procesados:
  "procesados (stats (recibirLote (map Some ms) d)) =
     procesados (stats d) + (if esCambioAprobado (Eventos ms) then 1 else 0)"
proof (cases "ms = []")
  case True
  then show ?thesis by (simp add: recibirLote_vacio esCambioAprobado_def)
next
  case False
  then show ?thesis
    using recibirLote_Some_efecto [OF False, of d]
    by (simp add: efectoMensajes_procesados manejarFrames_estado esCambioAprobado_def)
qed

lemma recibirLote_rechazados:
  "rechazados (stats (recibirLote (map Some ms) d)) =
     rechazados (stats d) + (if esCambioNoAprobado (Eventos ms) then 1 else 0)"
proof (cases "ms = []")
  case True
  then show ?thesis by (simp add: recibirLote_vacio esCambioNoAprobado_def)
next
  case False
  then show ?thesis
    using recibirLote_Some_efecto [OF False, of d]
    by (simp add: efectoMensajes_rechazados manejarFrames_estado esCambioNoAprobado_def)
qed

lemma handleConfirmarAccion_stats: "stats (handleConfirmarAccion r a aprobado c d) = stats d"
  by (cases r) (simp_all add: handleConfirmarAccion_def efecto_def Let_def)

lemma aplicar_procesados:
  "procesados (stats (aplicar x d)) = procesados (stats d) + (if esCambioAprobado x then 1 else 0)"
proof (cases x)
  case (Eventos ms)
  then show ?thesis by (simp add: recibirLote_procesados)
next
  case (ResultadoComando r a aprobado c)
  then show ?thesis by (simp add: handleConfirmarAccion_stats esCambioAprobado_def)
qed

lemma aplicar_rechazados:
  "rechazados (stats (aplicar x d)) = rechazados (stats d) + (if esCambioNoAprobado x then 1 else 0)"
proof (cases x)
  case (Eventos ms)
  then show ?thesis by (simp add: recibirLote_rechazados)
next
  case (ResultadoComando r a aprobado c)
  then show ?thesis by (simp add: handleConfirmarAccion_stats esCambioNoAprobado_def)
qed

text \<open>
  C1 (as amended). The terminal counters are moved by the runs of the effect, one per
  render after messages have arrived, each on the last message only. A run whose last
  message is a \<open>CAMBIO_ESTADO\<close> adds one to \<open>procesados\<close> when its \<open>estado\<close> is
  \<open>APROBADO\<close> and one to \<open>rechazados\<close> otherwise, whether or not its id is still in
  \<open>archivos\<close>; a command result, a \<open>NUEVO_ARCHIVO\<close> message and the messages that a
  later one of the same batch hides never change them. So over any sequence of batches
  and command results each terminal counter grows by the number of such runs: the same
  \<open>CAMBIO_ESTADO\<close> delivered twice with a render in between is counted twice.
\<close>

theorem contadores_cuentan_eventos:
  "procesados (stats (ejecutar xs d)) =
     procesados (stats d) + int (length (filter esCambioAprobado xs)) \<and>
   rechazados (stats (ejecutar xs d)) =
     rechazados (stats d) + int (length (filter esCambioNoAprobado xs))"
proof (induction xs arbitrary: d)
  case Nil
  show ?case by simp
next
  case (Cons x xs)
  show ?case
    by (simp add: Cons.IH aplicar_procesados aplicar_rechazados)
qed

text \<open>
  As the specification states it, the property fails: with file 1 pending and
  \<open>procesados\<close> at 0, the message \<open>CAMBIO_ESTADO\<close>/\<open>APROBADO\<close> for id 1 delivered twice,
  with a render after each delivery, leaves \<open>procesados\<close> at 2.
\<close>

theorem cambio_estado_duplicado_counterexample:
  "procesados (stats unPendiente) = 0 \<and>
   procesados (stats (ejecutar [Eventos [aprobado1], Eventos [aprobado1]] unPendiente)) = 2"
  by (simp add: unPendiente_valor aprobado1_def cambioEstado_def recibirLote_uno
      recibirFrame_Some efectoMensajes_def efecto_def Let_def js_tipos_distintos)

text \<open>
  When both deliveries are handled before the same render, the effect runs once, on
  the second of them: \<open>procesados\<close> is 1 and file 1 has left the list.
\<close>

lemma cambio_estado_duplicado_mismo_render:
  "procesados (stats (ejecutar [Eventos [aprobado1, aprobado1]] unPendiente)) = 1 \<and>
   archivos (ejecutar [Eventos [aprobado1, aprobado1]] unPendiente) = []"
  by (simp add: unPendiente_valor aprobado1_def cambioEstado_def recibirLote_def
      onmessage_def efectoMensajes_def efecto_def archivo1_def Let_def js_tipos_distintos)

lemma find_id_None:
  "(find (\<lambda>x. archivo_id x = i) xs = None) = (i \<notin> archivo_id ` set xs)"
  by (auto simp: find_None_iff)

text \<open>
  A \<open>NUEVO_ARCHIVO\<close> message leaves \<open>archivos\<close> as it is when the id is already there
  and appends the file otherwise; \<open>pendientes\<close> grows by one in both cases.
\<close>

lemma nuevo_archivo_archivos:
  "archivos (recibirFrame (Some (nuevoArchivo a)) d) =
     (if archivo_id a \<in> archivo_id ` set (archivos d) then archivos d else archivos d @ [a])"
proof (cases "find (\<lambda>x. archivo_id x = archivo_id a) (archivos d)")
  case None
  then have "archivo_id a \<notin> archivo_id ` set (archivos d)"
    by (simp add: find_id_None)
  then show ?thesis using None
    by (simp add: nuevoArchivo_def recibirFrame_Some efectoMensajes_def efecto_def Let_def)
next
  case (Some y)
  then have "archivo_id a \<in> archivo_id ` set (archivos d)"
    using find_id_None [of "archivo_id a" "archivos d"] by simp
  then show ?thesis using Some
    by (simp add: nuevoArchivo_def recibirFrame_Some efectoMensajes_def efecto_def Let_def)
qed

lemma nuevo_archivo_pendientes:
  "pendientes (stats (recibirFrame (Some (nuevoArchivo a)) d)) = pendientes (stats d) + 1"
  by (simp add: nuevoArchivo_def recibirFrame_Some efectoMensajes_def efecto_def Let_def)

text \<open>
  C2. After a snapshot holding the file with id 1, a \<open>NUEVO_ARCHIVO\<close> message for id 1
  leaves \<open>archivos\<close> with its one entry, and \<open>pendientes\<close> is 2: the guard against the
  duplicate covers the list and not the counter.
\<close>

theorem nuevo_archivo_duplicado:
  "archivos (recibirFrame (Some (nuevoArchivo archivo1)) unPendiente) = [archivo1] \<and>
   pendientes (stats (recibirFrame (Some (nuevoArchivo archivo1)) unPendiente)) = 2"
  by (simp add: unPendiente_valor nuevoArchivo_def recibirFrame_Some
      efectoMensajes_def efecto_def Let_def)

subsection \<open>A successful command and its event\<close>






subsection \<open>The session check\<close>

lemma handleLogoutSesion_peticiones: "peticiones (handleLogoutSesion d) = peticiones d"
  by (simp add: handleLogoutSesion_def Let_def peticiones_efecto) (simp add: peticiones_def)

lemma verificarExpiracionToken_peticiones:
  "peticiones (verificarExpiracionToken decodificar ahora t d) = peticiones d"
  by (cases "decodificar t")
     (simp_all add: verificarExpiracionToken_def Let_def peticiones_efecto
        handleLogoutSesion_peticiones, simp_all add: peticiones_def)

text \<open>
  With a credential stored, \<open>authAPI.me()\<close> is requested whatever the decoding gave;
  with none stored, nothing is requested.
\<close>

lemma verificarToken_llama_me:
  assumes "token d = Some t" and "t \<noteq> []"
  shows "peticiones (verificarToken decodificar ahora r d) = peticiones d @ [AuthMe]"
  using assms
  by (cases r)
     (simp_all add: verificarToken_def Let_def handleLogoutSesion_peticiones peticiones_efecto
        verificarExpiracionToken_peticiones)

lemma verificarToken_sin_token:
  "token d = None \<Longrightarrow> peticiones (verificarToken decodificar ahora r d) = peticiones d"
  by (simp add: verificarToken_def handleLogoutSesion_peticiones)

lemma verificarExpiracionToken_vencido:
  assumes "decodificar t = Exp e" and "e * 1000 - ahora \<le> 0"
  shows "token (verificarExpiracionToken decodificar ahora t d) = None"
  using assms by (simp add: verificarExpiracionToken_def handleLogoutSesion_def efecto_def Let_def)

text \<open>
  C7. The stored credential \<open>credencial\<close>, whose \<open>exp\<close> is 1000 s, checked at 2000000 ms: the remaining
  lifetime is not positive, the logout is done (the credential is cleared, \<open>onLogout\<close>
  is called), and then \<open>authAPI.me()\<close> is requested all the same.
\<close>

theorem verificarToken_vencido:
  "token (inicial (Some credencial)) = Some credencial \<and>
   vencido credencial = Exp 1000 \<and> (1000 :: int) * 1000 - 2000000 \<le> 0 \<and>
   efectos (verificarToken vencido 2000000 (Resuelta ()) (inicial (Some credencial)))
     = [OnLogout, Peticion AuthMe] \<and>
   token (verificarToken vencido 2000000 (Resuelta ()) (inicial (Some credencial))) = None"
proof -
  have n: "credencial \<noteq> []"
    by (simp add: credencial_def js_def)
  show ?thesis
    using n
    by (simp add: verificarToken_def verificarExpiracionToken_def handleLogoutSesion_def
        vencido_def inicial_def efecto_def Let_def)
qed

end
